theory Spec2Isabelle
  imports Main "HOL-Library.Sublist"
begin

section \<open>Team access: reconciling the access level with the permissions block\<close>

text \<open>
  The function \<^verbatim>\<open>setCustomOrComputedPermissions\<close> of
  \<^verbatim>\<open>resource_tfe_team_access.go\<close> is the \<^verbatim>\<open>CustomizeDiff\<close> hook of the team
  access resource. It receives a \<^verbatim>\<open>*schema.ResourceDiff\<close> of the plugin SDK, reads
  it five times and writes to it at most once.

  The SDK is not part of the repository, so the diff is modelled through its interface:
  one field for the result of each read the function performs, and a list of the
  customisations written into the diff so far. Within one invocation no read follows a
  write, so nothing is assumed about how the SDK answers a read after a write. The field
  "access" has the schema type \<^verbatim>\<open>TypeString\<close>, so its old and new value are strings
  and the type assertion \<^verbatim>\<open>n.(string)\<close> holds.
\<close>

datatype diff_op =
    MarkNewComputed string          \<comment> \<open>\<^verbatim>\<open>d.SetNewComputed(key)\<close>\<close>
  | OverrideNew string string       \<comment> \<open>\<^verbatim>\<open>d.SetNew(key, value)\<close>\<close>

record ResourceDiff =
  access_ok :: bool                   \<comment> \<open>second result of \<^verbatim>\<open>d.GetOk("access")\<close>\<close>
  access_has_change :: bool           \<comment> \<open>\<^verbatim>\<open>d.HasChange("access")\<close>\<close>
  access_change :: "string \<times> string"  \<comment> \<open>\<^verbatim>\<open>d.GetChange("access")\<close>: old and new value\<close>
  permissions0_has_change :: bool     \<comment> \<open>\<^verbatim>\<open>d.HasChange("permissions.0")\<close>\<close>
  permissions_ok :: bool              \<comment> \<open>second result of \<^verbatim>\<open>d.GetOk("permissions")\<close>\<close>
  writes :: "diff_op list"            \<comment> \<open>customisations applied to the diff, oldest first\<close>

text \<open>
  Modelled from the spec: the constant \<^verbatim>\<open>tfe.AccessCustom\<close> belongs to the client
  library, which is not in the repository. The spec calls the sentinel access level
  "custom", and the source itself compares the new access level with the literal
  \<^verbatim>\<open>"custom"\<close>.
\<close>

definition AccessCustom :: string where
  "AccessCustom = ''custom''"

text \<open>
  The two write operations of the SDK. Both return an error value that the source
  discards; both keys written here are declared \<^verbatim>\<open>Computed\<close> in the schema of the
  resource, which is what the SDK requires of a key it customises.
\<close>

definition SetNewComputed :: "string \<Rightarrow> ResourceDiff \<Rightarrow> ResourceDiff" where
  "SetNewComputed key d = d\<lparr>writes := writes d @ [MarkNewComputed key]\<rparr>"

definition SetNew :: "string \<Rightarrow> string \<Rightarrow> ResourceDiff \<Rightarrow> ResourceDiff" where
  "SetNew key v d = d\<lparr>writes := writes d @ [OverrideNew key v]\<rparr>"

text \<open>
  The hook itself. The result is the returned \<^verbatim>\<open>error\<close> (\<open>None\<close> for \<^verbatim>\<open>nil\<close>)
  and the diff as the function leaves it.
\<close>

definition setCustomOrComputedPermissions :: "ResourceDiff \<Rightarrow> string option \<times> ResourceDiff" where
  "setCustomOrComputedPermissions d =
     (if access_ok d then
        (if access_has_change d then
           (let new = snd (access_change d) in
            if new \<noteq> ''custom'' then (None, SetNewComputed ''permissions'' d)
            else (None, d))
         else
           (if permissions0_has_change d then (None, SetNew ''access'' AccessCustom d)
            else (None, d)))
      else
        (if permissions_ok d then (None, SetNew ''access'' AccessCustom d)
         else (None, d)))"

subsection \<open>Reading a diff\<close>

text \<open>Whether the permissions block is marked as computed by the server.\<close>

definition permissionsRecomputed :: "ResourceDiff \<Rightarrow> bool" where
  "permissionsRecomputed d = (MarkNewComputed ''permissions'' \<in> set (writes d))"

text \<open>The value that the latest override of a key proposes, if the key was overridden.\<close>

fun lastOverride :: "string \<Rightarrow> diff_op list \<Rightarrow> string option" where
  "lastOverride key [] = None"
| "lastOverride key (OverrideNew k v # ops) =
     (case lastOverride key ops of
        Some w \<Rightarrow> Some w
      | None \<Rightarrow> (if k = key then Some v else None))"
| "lastOverride key (MarkNewComputed k # ops) = lastOverride key ops"

definition accessOverride :: "ResourceDiff \<Rightarrow> string option" where
  "accessOverride d = lastOverride ''access'' (writes d)"


text \<open>
  The customisations that one invocation adds to the diff, and the decision they amount
  to, in the shape of the spec's contract: whether the permissions are to be recomputed,
  and the value overriding the access level, if any.
\<close>

definition issued :: "ResourceDiff \<Rightarrow> diff_op list" where
  "issued d = drop (length (writes d)) (writes (snd (setCustomOrComputedPermissions d)))"

definition decision :: "ResourceDiff \<Rightarrow> bool \<times> string option" where
  "decision d =
     (MarkNewComputed ''permissions'' \<in> set (issued d), lastOverride ''access'' (issued d))"

text \<open>What the function reads of a diff. The old access level is not among it.\<close>

definition reads :: "ResourceDiff \<Rightarrow> bool \<times> bool \<times> string \<times> bool \<times> bool" where
  "reads d =
     (access_ok d, access_has_change d, snd (access_change d),
      permissions0_has_change d, permissions_ok d)"




section \<open>The remote client and the resource data\<close>

text \<open>
  The create, read, update and delete functions of both resources call the API client
  \<^verbatim>\<open>*tfe.Client\<close> and read and write a \<^verbatim>\<open>*schema.ResourceData\<close>. Neither
  library is part of the repository. The client is modelled as a record of response
  functions; every response may depend on the calls made so far, which covers any
  deterministic server. The calls an operation makes are appended to that history.
  Logging (\<^verbatim>\<open>log.Printf\<close>) is left out.
\<close>

datatype tfe_error =
    ErrResourceNotFound       \<comment> \<open>the sentinel \<^verbatim>\<open>tfe.ErrResourceNotFound\<close>, compared by identity\<close>
  | OtherError string         \<comment> \<open>any other error value, with its text\<close>

text \<open>
  Modelled from the spec: \<^verbatim>\<open>err.Error()\<close>, as the verb \<^verbatim>\<open>%v\<close> prints it. The
  sentinel and its text are defined in the client library, which is not in the
  repository; the spec calls it the not-found sentinel.
\<close>

fun Error_text :: "tfe_error \<Rightarrow> string" where
  "Error_text ErrResourceNotFound = ''resource not found''"
| "Error_text (OtherError s) = s"

text \<open>
  How a function of the provider ends: it returns \<^verbatim>\<open>nil\<close>, it returns an error made
  by \<^verbatim>\<open>fmt.Errorf\<close>, or it panics at run time.
\<close>

datatype outcome = ReturnNil | ReturnError string | Panicked

record Workspace =
  ws_ID :: string
  ws_Name :: string

record Team =
  tm_ID :: string
  tm_Name :: string

record TeamAccess =
  ta_ID :: string
  ta_Access :: string
  ta_Runs :: string
  ta_Variables :: string
  ta_StateVersions :: string
  ta_SentinelMocks :: string
  ta_WorkspaceLocking :: bool
  ta_Team :: "Team option"           \<comment> \<open>a pointer, \<^verbatim>\<open>nil\<close> is \<open>None\<close>\<close>

record TeamAccessAddOptions =
  add_Access :: "string option"
  add_Team :: Team
  add_Workspace :: Workspace
  add_Runs :: "string option"
  add_Variables :: "string option"
  add_StateVersions :: "string option"
  add_SentinelMocks :: "string option"
  add_WorkspaceLocking :: "bool option"

record TeamAccessUpdateOptions =
  upd_Access :: "string option"
  upd_Runs :: "string option"
  upd_Variables :: "string option"
  upd_StateVersions :: "string option"
  upd_SentinelMocks :: "string option"
  upd_WorkspaceLocking :: "bool option"

record NotificationConfiguration =
  nc_ID :: string
  nc_DestinationType :: string
  nc_Enabled :: bool
  nc_Name :: string
  nc_Triggers :: "string list"
  nc_URL :: string
  nc_Subscribable :: "Workspace option"   \<comment> \<open>a pointer, \<^verbatim>\<open>nil\<close> is \<open>None\<close>\<close>

record NotificationConfigurationCreateOptions =
  co_DestinationType :: "string option"
  co_Enabled :: "bool option"
  co_Name :: "string option"
  co_Token :: "string option"
  co_URL :: "string option"
  co_Triggers :: "string list"

record NotificationConfigurationUpdateOptions =
  uo_Enabled :: "bool option"
  uo_Name :: "string option"
  uo_Token :: "string option"
  uo_URL :: "string option"
  uo_Triggers :: "string list"

datatype api_call =
    CallWorkspacesReadByID string
  | CallTeamsRead string
  | CallTeamAccessAdd TeamAccessAddOptions
  | CallTeamAccessRead string
  | CallTeamAccessUpdate string TeamAccessUpdateOptions
  | CallTeamAccessRemove string
  | CallNotificationConfigurationsCreate string NotificationConfigurationCreateOptions
  | CallNotificationConfigurationsRead string
  | CallNotificationConfigurationsUpdate string NotificationConfigurationUpdateOptions
  | CallNotificationConfigurationsDelete string

record Client =
  Workspaces_ReadByID :: "api_call list \<Rightarrow> string \<Rightarrow> tfe_error + Workspace"
  Teams_Read :: "api_call list \<Rightarrow> string \<Rightarrow> tfe_error + Team"
  TeamAccess_Add :: "api_call list \<Rightarrow> TeamAccessAddOptions \<Rightarrow> tfe_error + TeamAccess"
  TeamAccess_Read :: "api_call list \<Rightarrow> string \<Rightarrow> tfe_error + TeamAccess"
  TeamAccess_Update ::
    "api_call list \<Rightarrow> string \<Rightarrow> TeamAccessUpdateOptions \<Rightarrow> tfe_error + TeamAccess"
  TeamAccess_Remove :: "api_call list \<Rightarrow> string \<Rightarrow> tfe_error option"
  NotificationConfigurations_Create ::
    "api_call list \<Rightarrow> string \<Rightarrow> NotificationConfigurationCreateOptions
       \<Rightarrow> tfe_error + NotificationConfiguration"
  NotificationConfigurations_Read ::
    "api_call list \<Rightarrow> string \<Rightarrow> tfe_error + NotificationConfiguration"
  NotificationConfigurations_Update ::
    "api_call list \<Rightarrow> string \<Rightarrow> NotificationConfigurationUpdateOptions
       \<Rightarrow> tfe_error + NotificationConfiguration"
  NotificationConfigurations_Delete :: "api_call list \<Rightarrow> string \<Rightarrow> tfe_error option"

text \<open>The permissions block of the team access schema, and the values \<^verbatim>\<open>d.Set\<close> stores.\<close>

record Permissions =
  p_runs :: string
  p_variables :: string
  p_state_versions :: string
  p_sentinel_mocks :: string
  p_workspace_locking :: bool

datatype attr =
    AString string
  | ABool bool
  | AStrings "string list"
  | APermissions Permissions

text \<open>
  The resource data of a team access: the ID, the result of every read the four
  functions perform, the error of \<^verbatim>\<open>d.Set("permissions", ...)\<close> if the SDK refuses
  the value, and the attributes stored by \<^verbatim>\<open>d.Set\<close>, oldest first. The value of
  \<^verbatim>\<open>d.GetOk("permissions")\<close> is a list of \<^verbatim>\<open>interface{}\<close>; an element is a
  block (\<open>Some\<close>) or \<^verbatim>\<open>nil\<close> (\<open>None\<close>).
\<close>

record TeamAccessData =
  ta_Id :: string
  ta_Get_access :: string
  ta_Get_workspace_id :: string
  ta_Get_team_id :: string
  ta_GetOk_permissions :: "Permissions option list \<times> bool"
  ta_HasChange_runs :: bool
  ta_HasChange_variables :: bool
  ta_HasChange_state_versions :: bool
  ta_HasChange_sentinel_mocks :: bool
  ta_HasChange_workspace_locking :: bool
  ta_GetOk_runs :: "string \<times> bool"
  ta_GetOk_variables :: "string \<times> bool"
  ta_GetOk_state_versions :: "string \<times> bool"
  ta_GetOk_sentinel_mocks :: "string \<times> bool"
  ta_GetOkExists_workspace_locking :: "bool \<times> bool"
  ta_Set_permissions_error :: "string option"
  ta_stored :: "(string \<times> attr) list"

text \<open>The resource data of a notification configuration, in the same way.\<close>

record NotificationData =
  nd_Id :: string
  nd_GetOk_workspace_external_id :: "string \<times> bool"
  nd_GetOk_workspace_id :: "string \<times> bool"
  nd_Get_destination_type :: string
  nd_Get_enabled :: bool
  nd_Get_name :: string
  nd_Get_token :: string
  nd_Get_url :: string
  nd_Get_triggers :: "string list"        \<comment> \<open>\<^verbatim>\<open>d.Get("triggers").(*schema.Set).List()\<close>\<close>
  nd_stored :: "(string \<times> attr) list"

text \<open>
  Modelled from the spec: the constant \<^verbatim>\<open>tfe.NotificationDestinationTypeSlack\<close>
  belongs to the client library, which is not in the repository; claim C10 names its
  value, "slack".
\<close>

definition NotificationDestinationTypeSlack :: string where
  "NotificationDestinationTypeSlack = ''slack''"

text \<open>
  \<^verbatim>\<open>d.Set(key, value)\<close> where the source discards the error it returns: the value is
  stored.
\<close>

definition ta_Set :: "string \<Rightarrow> attr \<Rightarrow> TeamAccessData \<Rightarrow> TeamAccessData" where
  "ta_Set key v d = d\<lparr>ta_stored := ta_stored d @ [(key, v)]\<rparr>"

definition nd_Set :: "string \<Rightarrow> attr \<Rightarrow> NotificationData \<Rightarrow> NotificationData" where
  "nd_Set key v d = d\<lparr>nd_stored := nd_stored d @ [(key, v)]\<rparr>"

section \<open>Team access: create, read, update, delete\<close>

text \<open>The permissions that the read and the update functions store, built from the response.\<close>

definition permissionsOf :: "TeamAccess \<Rightarrow> Permissions" where
  "permissionsOf tmAccess =
     \<lparr>p_runs = ta_Runs tmAccess,
      p_variables = ta_Variables tmAccess,
      p_state_versions = ta_StateVersions tmAccess,
      p_sentinel_mocks = ta_SentinelMocks tmAccess,
      p_workspace_locking = ta_WorkspaceLocking tmAccess\<rparr>"

definition resourceTFETeamAccessRead ::
  "Client \<Rightarrow> TeamAccessData \<Rightarrow> api_call list \<Rightarrow> outcome \<times> TeamAccessData \<times> api_call list" where
  "resourceTFETeamAccessRead c d calls =
     (let calls1 = calls @ [CallTeamAccessRead (ta_Id d)] in
      case TeamAccess_Read c calls (ta_Id d) of
        Inl err \<Rightarrow>
          (if err = ErrResourceNotFound then (ReturnNil, d\<lparr>ta_Id := ''''\<rparr>, calls1)
           else (ReturnError (''Error reading configuration of team access '' @ ta_Id d
                              @ '': '' @ Error_text err), d, calls1))
      | Inr tmAccess \<Rightarrow>
          (let d1 = ta_Set ''access'' (AString (ta_Access tmAccess)) d;
               permissions = permissionsOf tmAccess in
           case ta_Set_permissions_error d1 of
             Some e \<Rightarrow>
               (ReturnError (''error setting permissions for team access '' @ ta_Id d1
                             @ '': '' @ e), d1, calls1)
           | None \<Rightarrow>
               (let d2 = ta_Set ''permissions'' (APermissions permissions) d1;
                    d3 = (case ta_Team tmAccess of
                            Some team \<Rightarrow> ta_Set ''team_id'' (AString (tm_ID team)) d2
                          | None \<Rightarrow> ta_Set ''team_id'' (AString '''') d2)
                in (ReturnNil, d3, calls1))))"






definition resourceTFETeamAccessDelete ::
  "Client \<Rightarrow> TeamAccessData \<Rightarrow> api_call list \<Rightarrow> outcome \<times> TeamAccessData \<times> api_call list" where
  "resourceTFETeamAccessDelete c d calls =
     (let calls1 = calls @ [CallTeamAccessRemove (ta_Id d)] in
      case TeamAccess_Remove c calls (ta_Id d) of
        Some err \<Rightarrow>
          (if err = ErrResourceNotFound then (ReturnNil, d, calls1)
           else (ReturnError (''Error deleting team access '' @ ta_Id d @ '': ''
                              @ Error_text err), d, calls1))
      | None \<Rightarrow> (ReturnNil, d, calls1))"

section \<open>Notification configuration: create, read, update, delete\<close>

definition resourceTFENotificationConfigurationRead ::
  "Client \<Rightarrow> NotificationData \<Rightarrow> api_call list \<Rightarrow> outcome \<times> NotificationData \<times> api_call list" where
  "resourceTFENotificationConfigurationRead c d calls =
     (let calls1 = calls @ [CallNotificationConfigurationsRead (nd_Id d)] in
      case NotificationConfigurations_Read c calls (nd_Id d) of
        Inl err \<Rightarrow>
          (if err = ErrResourceNotFound then (ReturnNil, d\<lparr>nd_Id := ''''\<rparr>, calls1)
           else (ReturnError (''Error reading notification configuration '' @ nd_Id d
                              @ '': '' @ Error_text err), d, calls1))
      | Inr notificationConfiguration \<Rightarrow>
          (let d1 = nd_Set ''destination_type''
                      (AString (nc_DestinationType notificationConfiguration)) d;
               d2 = nd_Set ''enabled'' (ABool (nc_Enabled notificationConfiguration)) d1;
               d3 = nd_Set ''name'' (AString (nc_Name notificationConfiguration)) d2;
               d4 = nd_Set ''triggers'' (AStrings (nc_Triggers notificationConfiguration)) d3;
               d5 = nd_Set ''url'' (AString (nc_URL notificationConfiguration)) d4 in
           case nc_Subscribable notificationConfiguration of
             None \<Rightarrow> (Panicked, d5, calls1)
           | Some subscribable \<Rightarrow>
               (let d6 = nd_Set ''workspace_external_id'' (AString (ws_ID subscribable)) d5;
                    d7 = nd_Set ''workspace_id'' (AString (ws_ID subscribable)) d6
                in (ReturnNil, d7, calls1))))"

text \<open>The loop that appends every trigger of the set to the options.\<close>

fun appendTriggers :: "string list \<Rightarrow> string list \<Rightarrow> string list" where
  "appendTriggers triggers [] = triggers"
| "appendTriggers triggers (trigger # rest) = appendTriggers (triggers @ [trigger]) rest"

text \<open>
  The workspace a notification configuration is created in, and the options structs of
  the create and the update function, as the source builds them from the resource data.
\<close>

definition createWorkspaceID :: "NotificationData \<Rightarrow> string" where
  "createWorkspaceID d =
     (if snd (nd_GetOk_workspace_external_id d) then fst (nd_GetOk_workspace_external_id d)
      else fst (nd_GetOk_workspace_id d))"

definition createOptions :: "NotificationData \<Rightarrow> NotificationConfigurationCreateOptions" where
  "createOptions d =
     \<lparr>co_DestinationType = Some (nd_Get_destination_type d),
      co_Enabled = Some (nd_Get_enabled d), co_Name = Some (nd_Get_name d),
      co_Token = Some (nd_Get_token d), co_URL = Some (nd_Get_url d),
      co_Triggers = appendTriggers [] (nd_Get_triggers d)\<rparr>"

definition notificationUpdateOptions ::
  "NotificationData \<Rightarrow> NotificationConfigurationUpdateOptions" where
  "notificationUpdateOptions d =
     \<lparr>uo_Enabled = Some (nd_Get_enabled d), uo_Name = Some (nd_Get_name d),
      uo_Token = Some (nd_Get_token d), uo_URL = Some (nd_Get_url d),
      uo_Triggers = appendTriggers [] (nd_Get_triggers d)\<rparr>"

definition resourceTFENotificationConfigurationCreate ::
  "Client \<Rightarrow> NotificationData \<Rightarrow> api_call list \<Rightarrow> outcome \<times> NotificationData \<times> api_call list" where
  "resourceTFENotificationConfigurationCreate c d calls =
     (let workspaceExternalIDValueOk = snd (nd_GetOk_workspace_external_id d);
          workspaceIDValueOk = snd (nd_GetOk_workspace_id d) in
      if \<not> workspaceExternalIDValueOk \<and> \<not> workspaceIDValueOk then
        (ReturnError ''One of workspace_id or workspace_external_id must be set'', d, calls)
      else
        (let workspaceID = createWorkspaceID d;
             destinationType = nd_Get_destination_type d;
             name = nd_Get_name d;
             token = nd_Get_token d in
         if token \<noteq> '''' \<and> destinationType = NotificationDestinationTypeSlack then
           (ReturnError (''Token cannot be set with destination_type of '' @ destinationType),
            d, calls)
         else
           (let options = createOptions d;
                calls1 = calls @ [CallNotificationConfigurationsCreate workspaceID options] in
            case NotificationConfigurations_Create c calls workspaceID options of
              Inl err \<Rightarrow>
                (ReturnError (''Error creating notification configuration '' @ name
                              @ '': '' @ Error_text err), d, calls1)
            | Inr notificationConfiguration \<Rightarrow>
                resourceTFENotificationConfigurationRead c
                  (d\<lparr>nd_Id := nc_ID notificationConfiguration\<rparr>) calls1)))"

definition resourceTFENotificationConfigurationUpdate ::
  "Client \<Rightarrow> NotificationData \<Rightarrow> api_call list \<Rightarrow> outcome \<times> NotificationData \<times> api_call list" where
  "resourceTFENotificationConfigurationUpdate c d calls =
     (let destinationType = nd_Get_destination_type d;
          token = nd_Get_token d in
      if token \<noteq> '''' \<and> destinationType = NotificationDestinationTypeSlack then
        (ReturnError (''Token cannot be set with destination_type of '' @ destinationType),
         d, calls)
      else
        (let options = notificationUpdateOptions d;
             calls1 = calls @ [CallNotificationConfigurationsUpdate (nd_Id d) options] in
         case NotificationConfigurations_Update c calls (nd_Id d) options of
           Inl err \<Rightarrow>
             (ReturnError (''Error updating notification configuration '' @ nd_Id d
                           @ '': '' @ Error_text err), d, calls1)
         | Inr updated \<Rightarrow> resourceTFENotificationConfigurationRead c d calls1))"

definition resourceTFENotificationConfigurationDelete ::
  "Client \<Rightarrow> NotificationData \<Rightarrow> api_call list \<Rightarrow> outcome \<times> NotificationData \<times> api_call list" where
  "resourceTFENotificationConfigurationDelete c d calls =
     (let calls1 = calls @ [CallNotificationConfigurationsDelete (nd_Id d)] in
      case NotificationConfigurations_Delete c calls (nd_Id d) of
        Some err \<Rightarrow>
          (if err = ErrResourceNotFound then (ReturnNil, d, calls1)
           else (ReturnError (''Error deleting notification configuration '' @ nd_Id d
                              @ '': '' @ Error_text err), d, calls1))
      | None \<Rightarrow> (ReturnNil, d, calls1))"



section \<open>Sample clients and resource data\<close>

text \<open>A client that answers every call of one kind with the same response.\<close>

definition fixedClient ::
  "tfe_error + Workspace \<Rightarrow> tfe_error + Team \<Rightarrow> tfe_error + TeamAccess \<Rightarrow> tfe_error option
     \<Rightarrow> tfe_error + NotificationConfiguration \<Rightarrow> Client" where
  "fixedClient ws tm ta rm nc =
     \<lparr>Workspaces_ReadByID = (\<lambda>calls workspaceID. ws),
      Teams_Read = (\<lambda>calls teamID. tm),
      TeamAccess_Add = (\<lambda>calls options. ta),
      TeamAccess_Read = (\<lambda>calls teamAccessID. ta),
      TeamAccess_Update = (\<lambda>calls teamAccessID options. ta),
      TeamAccess_Remove = (\<lambda>calls teamAccessID. rm),
      NotificationConfigurations_Create = (\<lambda>calls workspaceID options. nc),
      NotificationConfigurations_Read = (\<lambda>calls notificationConfigurationID. nc),
      NotificationConfigurations_Update = (\<lambda>calls notificationConfigurationID options. nc),
      NotificationConfigurations_Delete = (\<lambda>calls notificationConfigurationID. rm)\<rparr>"

definition sampleWorkspace :: Workspace where
  "sampleWorkspace = \<lparr>ws_ID = ''ws-1'', ws_Name = ''prod''\<rparr>"

definition sampleTeam :: Team where
  "sampleTeam = \<lparr>tm_ID = ''team-1'', tm_Name = ''ops''\<rparr>"

definition sampleTeamAccessData :: TeamAccessData where
  "sampleTeamAccessData =
     \<lparr>ta_Id = ''tws-1'', ta_Get_access = ''read'', ta_Get_workspace_id = ''ws-1'',
      ta_Get_team_id = ''team-1'', ta_GetOk_permissions = ([], False),
      ta_HasChange_runs = False, ta_HasChange_variables = False,
      ta_HasChange_state_versions = False, ta_HasChange_sentinel_mocks = False,
      ta_HasChange_workspace_locking = False, ta_GetOk_runs = ('''', False),
      ta_GetOk_variables = ('''', False), ta_GetOk_state_versions = ('''', False),
      ta_GetOk_sentinel_mocks = ('''', False),
      ta_GetOkExists_workspace_locking = (False, False),
      ta_Set_permissions_error = None, ta_stored = []\<rparr>"

definition sampleNotificationData :: "string \<Rightarrow> string \<Rightarrow> NotificationData" where
  "sampleNotificationData destinationType token =
     \<lparr>nd_Id = ''nc-1'', nd_GetOk_workspace_external_id = ('''', False),
      nd_GetOk_workspace_id = (''ws-1'', True), nd_Get_destination_type = destinationType,
      nd_Get_enabled = True, nd_Get_name = ''alerts'', nd_Get_token = token,
      nd_Get_url = ''https://example.com/hook'', nd_Get_triggers = [''run:errored''],
      nd_stored = []\<rparr>"

section \<open>Properties of the reconciler\<close>

lemma lastOverride_append_mark:
  "lastOverride key (ops @ [MarkNewComputed k]) = lastOverride key ops"
  by (induction key ops rule: lastOverride.induct) simp_all

lemma lastOverride_append_override:
  "lastOverride key (ops @ [OverrideNew key v]) = Some v"
  by (induction key ops rule: lastOverride.induct) simp_all

lemma issued_SetNewComputed:
  "drop (length (writes d)) (writes (SetNewComputed key d)) = [MarkNewComputed key]"
  by (simp add: SetNewComputed_def)

lemma issued_SetNew:
  "drop (length (writes d)) (writes (SetNew key v d)) = [OverrideNew key v]"
  by (simp add: SetNew_def)

lemma issued_cases:
  "issued d =
     (if access_ok d then
        (if access_has_change d then
           (if snd (access_change d) \<noteq> ''custom'' then [MarkNewComputed ''permissions'']
            else [])
         else (if permissions0_has_change d then [OverrideNew ''access'' ''custom''] else []))
      else (if permissions_ok d then [OverrideNew ''access'' ''custom''] else []))"
  by (simp add: issued_def setCustomOrComputedPermissions_def issued_SetNewComputed
        issued_SetNew AccessCustom_def)

lemma writes_after:
  "writes (snd (setCustomOrComputedPermissions d)) = writes d @ issued d"
  by (simp add: issued_cases)
     (simp add: setCustomOrComputedPermissions_def SetNewComputed_def SetNew_def
        AccessCustom_def)

text \<open>
  Claim C1. When the access field is set, changed in this apply, and its new value is not
  "custom", the reconciler marks the permissions field as computed by the server and does
  not override the proposed access level: it returns no error, the only customisation it
  adds is the mark on "permissions", and the override of the access level is what it was.
\<close>

theorem fixed_level_marks_permissions_computed:
  assumes "access_ok d" and "access_has_change d" and "snd (access_change d) \<noteq> ''custom''"
  shows "setCustomOrComputedPermissions d
           = (None, d\<lparr>writes := writes d @ [MarkNewComputed ''permissions'']\<rparr>)
         \<and> permissionsRecomputed (snd (setCustomOrComputedPermissions d))
         \<and> accessOverride (snd (setCustomOrComputedPermissions d)) = accessOverride d
         \<and> decision d = (True, None)"
proof -
  have run: "setCustomOrComputedPermissions d
               = (None, d\<lparr>writes := writes d @ [MarkNewComputed ''permissions'']\<rparr>)"
    using assms by (simp add: setCustomOrComputedPermissions_def SetNewComputed_def)
  have iss: "issued d = [MarkNewComputed ''permissions'']"
    using assms by (simp add: issued_cases)
  have "permissionsRecomputed (snd (setCustomOrComputedPermissions d))"
    by (simp add: run permissionsRecomputed_def)
  moreover have "accessOverride (snd (setCustomOrComputedPermissions d)) = accessOverride d"
    by (simp add: run accessOverride_def lastOverride_append_mark)
  moreover have "decision d = (True, None)"
    by (simp add: decision_def iss)
  ultimately show ?thesis using run by simp
qed

theorem fixed_level_marks_permissions_computed_witness:
  "setCustomOrComputedPermissions
     \<lparr>access_ok = True, access_has_change = True, access_change = (''read'', ''write''),
      permissions0_has_change = False, permissions_ok = True, writes = []\<rparr>
   = (None,
      \<lparr>access_ok = True, access_has_change = True, access_change = (''read'', ''write''),
       permissions0_has_change = False, permissions_ok = True,
       writes = [MarkNewComputed ''permissions'']\<rparr>)"
  using fixed_level_marks_permissions_computed
    [of "\<lparr>access_ok = True, access_has_change = True, access_change = (''read'', ''write''),
          permissions0_has_change = False, permissions_ok = True, writes = []\<rparr>"]
  by simp

text \<open>
  Claim C2. When the access field is set, changed in this apply, and its new value is
  "custom", the reconciler marks nothing and overrides nothing: it returns no error and
  the diff it leaves is the diff it was given.
\<close>

theorem change_to_custom_leaves_diff_unchanged:
  assumes "access_ok d" and "access_has_change d" and "snd (access_change d) = ''custom''"
  shows "setCustomOrComputedPermissions d = (None, d) \<and> decision d = (False, None)"
proof -
  have "setCustomOrComputedPermissions d = (None, d)"
    using assms by (simp add: setCustomOrComputedPermissions_def)
  moreover have "issued d = []"
    using assms by (simp add: issued_cases)
  ultimately show ?thesis by (simp add: decision_def)
qed

theorem change_to_custom_leaves_diff_unchanged_witness:
  "setCustomOrComputedPermissions
     \<lparr>access_ok = True, access_has_change = True, access_change = (''read'', ''custom''),
      permissions0_has_change = True, permissions_ok = True, writes = []\<rparr>
   = (None,
      \<lparr>access_ok = True, access_has_change = True, access_change = (''read'', ''custom''),
       permissions0_has_change = True, permissions_ok = True, writes = []\<rparr>)"
  using change_to_custom_leaves_diff_unchanged
    [of "\<lparr>access_ok = True, access_has_change = True, access_change = (''read'', ''custom''),
          permissions0_has_change = True, permissions_ok = True, writes = []\<rparr>"]
  by simp

text \<open>
  Claim C3. When the access field is set and did not change in this apply, and the
  permissions block changed, the reconciler overrides the proposed access level with
  "custom" and does not mark the permissions for recomputation: it returns no error and
  the only customisation it adds is the override of "access".
\<close>

theorem permissions_change_overrides_access:
  assumes "access_ok d" and "\<not> access_has_change d" and "permissions0_has_change d"
  shows "setCustomOrComputedPermissions d
           = (None, d\<lparr>writes := writes d @ [OverrideNew ''access'' ''custom'']\<rparr>)
         \<and> accessOverride (snd (setCustomOrComputedPermissions d)) = Some ''custom''
         \<and> permissionsRecomputed (snd (setCustomOrComputedPermissions d))
             = permissionsRecomputed d
         \<and> decision d = (False, Some ''custom'')"
proof -
  have run: "setCustomOrComputedPermissions d
               = (None, d\<lparr>writes := writes d @ [OverrideNew ''access'' ''custom'']\<rparr>)"
    using assms by (simp add: setCustomOrComputedPermissions_def SetNew_def AccessCustom_def)
  have iss: "issued d = [OverrideNew ''access'' ''custom'']"
    using assms by (simp add: issued_cases)
  have "accessOverride (snd (setCustomOrComputedPermissions d)) = Some ''custom''"
    by (simp add: run accessOverride_def lastOverride_append_override)
  moreover have "permissionsRecomputed (snd (setCustomOrComputedPermissions d))
                   = permissionsRecomputed d"
    by (simp add: run permissionsRecomputed_def)
  moreover have "decision d = (False, Some ''custom'')"
    by (simp add: decision_def iss)
  ultimately show ?thesis using run by simp
qed

theorem permissions_change_overrides_access_witness:
  "setCustomOrComputedPermissions
     \<lparr>access_ok = True, access_has_change = False, access_change = (''read'', ''read''),
      permissions0_has_change = True, permissions_ok = True, writes = []\<rparr>
   = (None,
      \<lparr>access_ok = True, access_has_change = False, access_change = (''read'', ''read''),
       permissions0_has_change = True, permissions_ok = True,
       writes = [OverrideNew ''access'' ''custom'']\<rparr>)"
  using permissions_change_overrides_access
    [of "\<lparr>access_ok = True, access_has_change = False, access_change = (''read'', ''read''),
          permissions0_has_change = True, permissions_ok = True, writes = []\<rparr>"]
  by simp

text \<open>
  Claim C4. When no access value is present (a new resource): if a permissions block is
  present the reconciler overrides the access level with "custom"; if none is present it
  changes nothing and returns the diff it was given.
\<close>

theorem no_access_follows_permissions_block:
  assumes "\<not> access_ok d"
  shows "(permissions_ok d \<longrightarrow>
            setCustomOrComputedPermissions d
              = (None, d\<lparr>writes := writes d @ [OverrideNew ''access'' ''custom'']\<rparr>)
            \<and> accessOverride (snd (setCustomOrComputedPermissions d)) = Some ''custom'')
         \<and> (\<not> permissions_ok d \<longrightarrow> setCustomOrComputedPermissions d = (None, d))"
  using assms
  by (simp add: setCustomOrComputedPermissions_def SetNew_def AccessCustom_def
        accessOverride_def lastOverride_append_override)

theorem no_access_follows_permissions_block_witness:
  "setCustomOrComputedPermissions
     \<lparr>access_ok = False, access_has_change = False, access_change = ('''', ''''),
      permissions0_has_change = True, permissions_ok = True, writes = []\<rparr>
   = (None,
      \<lparr>access_ok = False, access_has_change = False, access_change = ('''', ''''),
       permissions0_has_change = True, permissions_ok = True,
       writes = [OverrideNew ''access'' ''custom'']\<rparr>)
   \<and> setCustomOrComputedPermissions
     \<lparr>access_ok = False, access_has_change = False, access_change = ('''', ''''),
      permissions0_has_change = False, permissions_ok = False, writes = []\<rparr>
   = (None,
      \<lparr>access_ok = False, access_has_change = False, access_change = ('''', ''''),
       permissions0_has_change = False, permissions_ok = False, writes = []\<rparr>)"
  using no_access_follows_permissions_block
    [of "\<lparr>access_ok = False, access_has_change = False, access_change = ('''', ''''),
          permissions0_has_change = True, permissions_ok = True, writes = []\<rparr>"]
    no_access_follows_permissions_block
    [of "\<lparr>access_ok = False, access_has_change = False, access_change = ('''', ''''),
          permissions0_has_change = False, permissions_ok = False, writes = []\<rparr>"]
  by simp

text \<open>
  Claim C5. The reconciler is deterministic and idempotent: its decision (whether the
  permissions are to be recomputed, and the value overriding the access level) and the
  error it returns depend on nothing but what it reads of the diff. Two invocations that
  read the same diff state decide the same, whatever the old access level and whatever
  customisations the diff already carries.
\<close>

theorem same_reads_same_decision:
  assumes "reads d1 = reads d2"
  shows "decision d1 = decision d2
         \<and> issued d1 = issued d2
         \<and> fst (setCustomOrComputedPermissions d1) = fst (setCustomOrComputedPermissions d2)"
proof -
  have iss: "issued d1 = issued d2"
    using assms by (simp add: reads_def issued_cases)
  have "fst (setCustomOrComputedPermissions d1) = None"
    by (simp add: setCustomOrComputedPermissions_def)
  moreover have "fst (setCustomOrComputedPermissions d2) = None"
    by (simp add: setCustomOrComputedPermissions_def)
  ultimately show ?thesis using iss by (simp add: decision_def)
qed

theorem same_reads_same_decision_witness:
  "decision
     \<lparr>access_ok = True, access_has_change = True, access_change = (''read'', ''write''),
      permissions0_has_change = False, permissions_ok = True, writes = []\<rparr>
   = decision
     \<lparr>access_ok = True, access_has_change = True, access_change = (''plan'', ''write''),
      permissions0_has_change = False, permissions_ok = True,
      writes = [MarkNewComputed ''permissions'']\<rparr>
   \<and> decision
     \<lparr>access_ok = True, access_has_change = True, access_change = (''read'', ''write''),
      permissions0_has_change = False, permissions_ok = True, writes = []\<rparr>
   = (True, None)"
proof -
  have "reads
          \<lparr>access_ok = True, access_has_change = True, access_change = (''read'', ''write''),
           permissions0_has_change = False, permissions_ok = True, writes = []\<rparr>
        = reads
          \<lparr>access_ok = True, access_has_change = True, access_change = (''plan'', ''write''),
           permissions0_has_change = False, permissions_ok = True,
           writes = [MarkNewComputed ''permissions'']\<rparr>"
    by (simp add: reads_def)
  from same_reads_same_decision [OF this] show ?thesis
    by (simp add: decision_def issued_cases)
qed

text \<open>
  Claim C6. The reconciler is total and has no error case: on every diff it returns, and
  the error it returns is \<^verbatim>\<open>nil\<close>.
\<close>

theorem reconciler_returns_nil:
  "\<exists>d'. setCustomOrComputedPermissions d = (None, d')"
  by (simp add: setCustomOrComputedPermissions_def)




section \<open>Properties of the create, read, update and delete functions\<close>





lemma fixedClient_responses:
  "Workspaces_ReadByID (fixedClient ws tm ta rm nc) calls workspaceID = ws"
  "Teams_Read (fixedClient ws tm ta rm nc) calls teamID = tm"
  "TeamAccess_Add (fixedClient ws tm ta rm nc) calls addOpts = ta"
  "TeamAccess_Read (fixedClient ws tm ta rm nc) calls ident = ta"
  "TeamAccess_Update (fixedClient ws tm ta rm nc) calls ident updOpts = ta"
  "TeamAccess_Remove (fixedClient ws tm ta rm nc) calls ident = rm"
  "NotificationConfigurations_Create (fixedClient ws tm ta rm nc) calls workspaceID createOpts = nc"
  "NotificationConfigurations_Read (fixedClient ws tm ta rm nc) calls ident = nc"
  "NotificationConfigurations_Update (fixedClient ws tm ta rm nc) calls ident updateOpts = nc"
  "NotificationConfigurations_Delete (fixedClient ws tm ta rm nc) calls ident = rm"
  by (simp_all add: fixedClient_def)

subsection \<open>The not-found sentinel\<close>

lemma team_access_read_not_found:
  "TeamAccess_Read c calls (ta_Id d) = Inl ErrResourceNotFound \<Longrightarrow>
   resourceTFETeamAccessRead c d calls
     = (ReturnNil, d\<lparr>ta_Id := ''''\<rparr>, calls @ [CallTeamAccessRead (ta_Id d)])"
  by (simp add: resourceTFETeamAccessRead_def Let_def)

lemma team_access_delete_not_found:
  "TeamAccess_Remove c calls (ta_Id d) = Some ErrResourceNotFound \<Longrightarrow>
   resourceTFETeamAccessDelete c d calls
     = (ReturnNil, d, calls @ [CallTeamAccessRemove (ta_Id d)])"
  by (simp add: resourceTFETeamAccessDelete_def Let_def)

lemma notification_read_not_found:
  "NotificationConfigurations_Read c calls (nd_Id n) = Inl ErrResourceNotFound \<Longrightarrow>
   resourceTFENotificationConfigurationRead c n calls
     = (ReturnNil, n\<lparr>nd_Id := ''''\<rparr>, calls @ [CallNotificationConfigurationsRead (nd_Id n)])"
  by (simp add: resourceTFENotificationConfigurationRead_def Let_def)

lemma notification_delete_not_found:
  "NotificationConfigurations_Delete c calls (nd_Id n) = Some ErrResourceNotFound \<Longrightarrow>
   resourceTFENotificationConfigurationDelete c n calls
     = (ReturnNil, n, calls @ [CallNotificationConfigurationsDelete (nd_Id n)])"
  by (simp add: resourceTFENotificationConfigurationDelete_def Let_def)

text \<open>
  Claim C7. When the client answers a read or a delete of either resource with the
  not-found sentinel, the operation succeeds: delete returns \<^verbatim>\<open>nil\<close> and leaves the
  resource data as it was; read clears the ID of the resource and returns \<^verbatim>\<open>nil\<close>.
  Each makes the one call to the client and no other.
\<close>

theorem not_found_succeeds:
  "(TeamAccess_Read c calls (ta_Id d) = Inl ErrResourceNotFound \<longrightarrow>
      resourceTFETeamAccessRead c d calls
        = (ReturnNil, d\<lparr>ta_Id := ''''\<rparr>, calls @ [CallTeamAccessRead (ta_Id d)]))
   \<and> (TeamAccess_Remove c calls (ta_Id d) = Some ErrResourceNotFound \<longrightarrow>
      resourceTFETeamAccessDelete c d calls
        = (ReturnNil, d, calls @ [CallTeamAccessRemove (ta_Id d)]))
   \<and> (NotificationConfigurations_Read c calls (nd_Id n) = Inl ErrResourceNotFound \<longrightarrow>
      resourceTFENotificationConfigurationRead c n calls
        = (ReturnNil, n\<lparr>nd_Id := ''''\<rparr>,
           calls @ [CallNotificationConfigurationsRead (nd_Id n)]))
   \<and> (NotificationConfigurations_Delete c calls (nd_Id n) = Some ErrResourceNotFound \<longrightarrow>
      resourceTFENotificationConfigurationDelete c n calls
        = (ReturnNil, n, calls @ [CallNotificationConfigurationsDelete (nd_Id n)]))"
  using team_access_read_not_found [of c calls d] team_access_delete_not_found [of c calls d]
    notification_read_not_found [of c calls n] notification_delete_not_found [of c calls n]
  by blast

theorem not_found_succeeds_witness:
  "resourceTFETeamAccessRead
     (fixedClient (Inl ErrResourceNotFound) (Inl ErrResourceNotFound) (Inl ErrResourceNotFound)
        (Some ErrResourceNotFound) (Inl ErrResourceNotFound))
     sampleTeamAccessData []
     = (ReturnNil, sampleTeamAccessData\<lparr>ta_Id := ''''\<rparr>, [CallTeamAccessRead ''tws-1''])
   \<and> resourceTFETeamAccessDelete
     (fixedClient (Inl ErrResourceNotFound) (Inl ErrResourceNotFound) (Inl ErrResourceNotFound)
        (Some ErrResourceNotFound) (Inl ErrResourceNotFound))
     sampleTeamAccessData []
     = (ReturnNil, sampleTeamAccessData, [CallTeamAccessRemove ''tws-1''])
   \<and> resourceTFENotificationConfigurationRead
     (fixedClient (Inl ErrResourceNotFound) (Inl ErrResourceNotFound) (Inl ErrResourceNotFound)
        (Some ErrResourceNotFound) (Inl ErrResourceNotFound))
     (sampleNotificationData ''generic'' ''secret'') []
     = (ReturnNil, (sampleNotificationData ''generic'' ''secret'')\<lparr>nd_Id := ''''\<rparr>,
        [CallNotificationConfigurationsRead ''nc-1''])
   \<and> resourceTFENotificationConfigurationDelete
     (fixedClient (Inl ErrResourceNotFound) (Inl ErrResourceNotFound) (Inl ErrResourceNotFound)
        (Some ErrResourceNotFound) (Inl ErrResourceNotFound))
     (sampleNotificationData ''generic'' ''secret'') []
     = (ReturnNil, sampleNotificationData ''generic'' ''secret'',
        [CallNotificationConfigurationsDelete ''nc-1''])"
  using not_found_succeeds
    [of "fixedClient (Inl ErrResourceNotFound) (Inl ErrResourceNotFound)
           (Inl ErrResourceNotFound) (Some ErrResourceNotFound) (Inl ErrResourceNotFound)"
        "[]" sampleTeamAccessData "sampleNotificationData ''generic'' ''secret''"]
  by (simp add: fixedClient_responses sampleTeamAccessData_def sampleNotificationData_def)

subsection \<open>Other failures of the client\<close>














subsection \<open>A token with the Slack destination type\<close>

text \<open>
  Claim C10. Creating or updating a notification configuration whose token is not empty
  and whose destination type is "slack" returns an error before the client is invoked:
  no call is added to the history of the client, and the resource data is unchanged.
  Update returns the token error; create returns the token error, or the error about the
  missing workspace when neither workspace attribute is set.
\<close>

theorem slack_token_rejected_before_any_call:
  assumes "nd_Get_token n \<noteq> ''''" and "nd_Get_destination_type n = ''slack''"
  shows "resourceTFENotificationConfigurationCreate c n calls
           = (ReturnError
                (if \<not> snd (nd_GetOk_workspace_external_id n) \<and> \<not> snd (nd_GetOk_workspace_id n)
                 then ''One of workspace_id or workspace_external_id must be set''
                 else ''Token cannot be set with destination_type of slack''), n, calls)
         \<and> resourceTFENotificationConfigurationUpdate c n calls
           = (ReturnError ''Token cannot be set with destination_type of slack'', n, calls)"
  using assms
  by (simp add: resourceTFENotificationConfigurationCreate_def
        resourceTFENotificationConfigurationUpdate_def NotificationDestinationTypeSlack_def
        Let_def)

theorem slack_token_rejected_before_any_call_witness:
  "resourceTFENotificationConfigurationCreate
     (fixedClient (Inr sampleWorkspace) (Inr sampleTeam) (Inl ErrResourceNotFound) None
        (Inl (OtherError ''boom'')))
     (sampleNotificationData ''slack'' ''secret'') []
     = (ReturnError ''Token cannot be set with destination_type of slack'',
        sampleNotificationData ''slack'' ''secret'', [])
   \<and> resourceTFENotificationConfigurationUpdate
     (fixedClient (Inr sampleWorkspace) (Inr sampleTeam) (Inl ErrResourceNotFound) None
        (Inl (OtherError ''boom'')))
     (sampleNotificationData ''slack'' ''secret'') []
     = (ReturnError ''Token cannot be set with destination_type of slack'',
        sampleNotificationData ''slack'' ''secret'', [])"
proof -
  have tok: "nd_Get_token (sampleNotificationData ''slack'' ''secret'') \<noteq> ''''"
    by (simp add: sampleNotificationData_def)
  have dst: "nd_Get_destination_type (sampleNotificationData ''slack'' ''secret'') = ''slack''"
    by (simp add: sampleNotificationData_def)
  have wid: "snd (nd_GetOk_workspace_id (sampleNotificationData ''slack'' ''secret''))"
    by (simp add: sampleNotificationData_def)
  from slack_token_rejected_before_any_call [OF tok dst] wid show ?thesis
    by simp
qed

end
